theory Spec2Isabelle
  imports Main
begin

section \<open>The SSH keys control of the settings panel\<close>

text \<open>
  A shallow embedding of \<^verbatim>\<open>selfdrive/ui/qt/widgets/ssh_keys.cc\<close>: the widget
  \<^verbatim>\<open>SshControl\<close>, its click handler, \<^verbatim>\<open>refresh()\<close>, \<^verbatim>\<open>getUserKeys()\<close> and the
  handler of the request's \<^verbatim>\<open>requestDone\<close> signal.

  Both string types of the source (\<^verbatim>\<open>QString\<close> and \<^verbatim>\<open>std::string\<close>) are modelled by
  \<^typ>\<open>string\<close>, the UTF-8 bytes of the text, so that \<^verbatim>\<open>toStdString\<close> and
  \<^verbatim>\<open>fromStdString\<close> are the identity. The source file is UTF-8; its Arabic literals
  are written below byte by byte.
\<close>

subsection \<open>String literals of the source\<close>

text \<open>The literal of line 37, the button text of the unlinked state (Arabic for "add").\<close>

definition lit_add :: string where
  "lit_add = [CHR 0xD8, CHR 0xA7, CHR 0xD8, CHR 0xB6, CHR 0xD9, CHR 0x81]"

text \<open>The literal of line 34, the button text of the linked state (Arabic for "removal").\<close>

definition lit_remove :: string where
  "lit_remove = [CHR 0xD8, CHR 0xA5, CHR 0xD8, CHR 0xB2, CHR 0xD8, CHR 0xA7, CHR 0xD9, CHR 0x84,
     CHR 0xD8, CHR 0xA9]"

text \<open>The literal of line 16, the transient button text (Arabic for "loading").\<close>

definition lit_loading :: string where
  "lit_loading = [CHR 0xD8, CHR 0xAC, CHR 0xD8, CHR 0xA7, CHR 0xD8, CHR 0xB1, CHR 0x20,
     CHR 0xD8, CHR 0xA7, CHR 0xD9, CHR 0x84, CHR 0xD8, CHR 0xAA, CHR 0xD8, CHR 0xAD, CHR 0xD9,
     CHR 0x85, CHR 0xD9, CHR 0x8A, CHR 0xD9, CHR 0x84]"

text \<open>The literal of line 14, the prompt of the input dialog.\<close>

definition lit_prompt :: string where
  "lit_prompt = [CHR 0xD8, CHR 0xA3, CHR 0xD8, CHR 0xAF, CHR 0xD8, CHR 0xAE, CHR 0xD9, CHR 0x84,
     CHR 0x20, CHR 0xD8, CHR 0xA7, CHR 0xD8, CHR 0xB3, CHR 0xD9, CHR 0x85, CHR 0x20, CHR 0xD9,
     CHR 0x85, CHR 0xD8, CHR 0xB3, CHR 0xD8, CHR 0xAA, CHR 0xD8, CHR 0xAE, CHR 0xD8, CHR 0xAF,
     CHR 0xD9, CHR 0x85, CHR 0x20, CHR 0xD8, CHR 0xAC, CHR 0xD8, CHR 0xAA, CHR 0x20, CHR 0xD9,
     CHR 0x87, CHR 0xD8, CHR 0xA8, CHR 0x20, CHR 0xD8, CHR 0xA7, CHR 0xD9, CHR 0x84, CHR 0xD8,
     CHR 0xAE, CHR 0xD8, CHR 0xA7, CHR 0xD8, CHR 0xB5, CHR 0x20, CHR 0xD8, CHR 0xA8, CHR 0xD9,
     CHR 0x83]"

subsection \<open>The settings store\<close>

text \<open>
  Modelled from the spec: the class \<^verbatim>\<open>Params\<close> of \<^verbatim>\<open>selfdrive/common/params.h\<close> is not
  among the sources. The spec gives its interface: \<^verbatim>\<open>get(key) -> string (empty if
  absent)\<close>, \<^verbatim>\<open>put(key, value)\<close>, \<^verbatim>\<open>remove(key)\<close>. A store is a map from keys to values.
\<close>

type_synonym Params = "string \<rightharpoonup> string"

definition params_get :: "Params \<Rightarrow> string \<Rightarrow> string" where
  "params_get p key = (case p key of None \<Rightarrow> [] | Some v \<Rightarrow> v)"

definition params_put :: "Params \<Rightarrow> string \<Rightarrow> string \<Rightarrow> Params" where
  "params_put p key v = p(key \<mapsto> v)"

definition params_remove :: "Params \<Rightarrow> string \<Rightarrow> Params" where
  "params_remove p key = p(key := None)"

subsection \<open>The state of the control\<close>

text \<open>
  A request in flight: the URL given to \<^verbatim>\<open>sendRequest\<close> (line 64) and the username that
  the handler connected to its \<^verbatim>\<open>requestDone\<close> signal has captured (line 44).
\<close>

record HttpRequest =
  url :: string
  cb_username :: string

text \<open>
  The widget and what it acts on: the store (member \<^verbatim>\<open>params\<close>), the button text
  (\<^verbatim>\<open>text()\<close>, \<^verbatim>\<open>setText\<close>), the secondary label, the enabled flag, and the traces of its
  calls to the outside: the prompts shown by \<^verbatim>\<open>InputDialog::getText\<close>, the messages shown by
  \<^verbatim>\<open>ConfirmationDialog::alert\<close>, and the requests created, sent and not yet deleted.
\<close>

record SshControl =
  params :: Params
  btn_text :: string
  username_label :: string
  enabled :: bool
  prompts :: "string list"
  alerts :: "string list"
  requests :: "HttpRequest list"

definition setText :: "string \<Rightarrow> SshControl \<Rightarrow> SshControl" where
  "setText t s = s\<lparr>btn_text := t\<rparr>"

definition setEnabled :: "bool \<Rightarrow> SshControl \<Rightarrow> SshControl" where
  "setEnabled b s = s\<lparr>enabled := b\<rparr>"

definition alert :: "string \<Rightarrow> SshControl \<Rightarrow> SshControl" where
  "alert msg s = s\<lparr>alerts := alerts s @ [msg]\<rparr>"

subsection \<open>The operations\<close>

text \<open>\<^verbatim>\<open>SshControl::refresh\<close>, lines 30 to 40.\<close>

definition refresh :: "SshControl \<Rightarrow> SshControl" where
  "refresh s =
     (let param = params_get (params s) ''GithubSshKeys'';
          s1 = (if length param \<noteq> 0
                then setText lit_remove
                       (s\<lparr>username_label := params_get (params s) ''GithubUsername''\<rparr>)
                else setText lit_add (s\<lparr>username_label := []\<rparr>))
      in setEnabled True s1)"

text \<open>
  \<^verbatim>\<open>SshControl::getUserKeys\<close>, lines 42 to 65, up to the completion of the request: a
  request is created, the handler that captures \<^verbatim>\<open>username\<close> is connected, and the request
  is sent to the URL of line 64.
\<close>

definition getUserKeys :: "string \<Rightarrow> SshControl \<Rightarrow> SshControl" where
  "getUserKeys username s =
     s\<lparr>requests := requests s @
        [\<lparr>url = ''https://github.com/'' @ username @ ''.keys'', cb_username = username\<rparr>]\<rparr>"

text \<open>
  The handler of \<^verbatim>\<open>requestDone\<close>, lines 44 to 60: \<^verbatim>\<open>username\<close> is the captured
  username, \<^verbatim>\<open>timeout\<close> is what \<^verbatim>\<open>request->timeout()\<close> returns, \<^verbatim>\<open>resp\<close> and \<^verbatim>\<open>success\<close>
  are the arguments of the signal. \<^verbatim>\<open>QString(...).arg(username)\<close> puts the username in the
  place of \<^verbatim>\<open>%1\<close>.
\<close>

definition requestDone :: "string \<Rightarrow> bool \<Rightarrow> string \<Rightarrow> bool \<Rightarrow> SshControl \<Rightarrow> SshControl" where
  "requestDone username timeout resp success s =
     (let s1 =
        (if success then
           (if resp \<noteq> [] then
              s\<lparr>params := params_put (params_put (params s) ''GithubUsername'' username)
                             ''GithubSshKeys'' resp\<rparr>
            else
              alert (''Username '' @ [CHR 0x27] @ username @ [CHR 0x27] @
                     '' has no keys on GitHub'') s)
         else
           (if timeout then alert ''Request timed out'' s
            else
              alert (''Username '' @ [CHR 0x27] @ username @ [CHR 0x27] @
                     '' doesn't exist on GitHub'') s))
      in refresh s1)"

text \<open>
  The handler of \<^verbatim>\<open>ButtonControl::clicked\<close>, lines 12 to 25. \<^verbatim>\<open>answer\<close> is what
  \<^verbatim>\<open>InputDialog::getText\<close> returns when it is called: the text entered, empty when the
  dialog is cancelled.
\<close>

definition clicked :: "string \<Rightarrow> SshControl \<Rightarrow> SshControl" where
  "clicked answer s =
     (if btn_text s = ''ADD'' then
        (let s1 = s\<lparr>prompts := prompts s @ [lit_prompt]\<rparr>;
             username = answer
         in if length username > 0
            then getUserKeys username (setEnabled False (setText lit_loading s1))
            else s1)
      else
        refresh (s\<lparr>params := params_remove (params_remove (params s) ''GithubUsername'')
                                ''GithubSshKeys''\<rparr>))"

text \<open>
  The constructor, lines 7 to 28, on a given store: \<^verbatim>\<open>ButtonControl\<close> is built with the
  empty text, the handler is connected and \<^verbatim>\<open>refresh()\<close> is called.
\<close>

definition SshControl_new :: "Params \<Rightarrow> SshControl" where
  "SshControl_new p =
     refresh \<lparr>params = p, btn_text = [], username_label = [], enabled = True,
              prompts = [], alerts = [], requests = []\<rparr>"

subsection \<open>Events\<close>

text \<open>
  What happens to a constructed control: a click (with the answer the input dialog would
  give), or the completion of the request at position \<^verbatim>\<open>i\<close> of the requests in flight,
  which runs its handler and then deletes the request (\<^verbatim>\<open>deleteLater\<close>, line 61). A
  completion of a request that does not exist is no event. A click runs the handler
  whatever the enabled flag is: the properties below hold also for clicks that a disabled
  button would not deliver.
\<close>

datatype event = Click string | RequestDone nat bool string bool

definition fire :: "event \<Rightarrow> SshControl \<Rightarrow> SshControl" where
  "fire e s =
     (case e of
        Click answer \<Rightarrow> clicked answer s
      | RequestDone i timeout resp success \<Rightarrow>
          (if i < length (requests s) then
             (requestDone (cb_username (requests s ! i)) timeout resp success s)
               \<lparr>requests := take i (requests s) @ drop (Suc i) (requests s)\<rparr>
           else s))"

definition run :: "event list \<Rightarrow> SshControl \<Rightarrow> SshControl" where
  "run evs s = foldl (\<lambda>s e. fire e s) s evs"

text \<open>The two persisted fields are both present or both absent.\<close>

definition paired :: "Params \<Rightarrow> bool" where
  "paired p = ((p ''GithubUsername'' = None) = (p ''GithubSshKeys'' = None))"

text \<open>
  The control at rest: the button text is one of the two that \<^verbatim>\<open>refresh()\<close> sets, the
  control is enabled, no prompt has been shown and no request is in flight.
\<close>

definition settled :: "SshControl \<Rightarrow> bool" where
  "settled s = ((btn_text s = lit_add \<or> btn_text s = lit_remove) \<and> enabled s \<and>
     prompts s = [] \<and> requests s = [])"

section \<open>Properties\<close>

subsection \<open>Helper facts\<close>

lemma lit_add_neq_ADD: "lit_add \<noteq> ''ADD''"
  by (simp add: lit_add_def)

lemma lit_remove_neq_ADD: "lit_remove \<noteq> ''ADD''"
  by (simp add: lit_remove_def)

lemma refresh_expand:
  "refresh s =
     s\<lparr>username_label :=
         (if params_get (params s) ''GithubSshKeys'' \<noteq> []
          then params_get (params s) ''GithubUsername'' else []),
       btn_text := (if params_get (params s) ''GithubSshKeys'' \<noteq> [] then lit_remove else lit_add),
       enabled := True\<rparr>"
  by (simp add: refresh_def setText_def setEnabled_def Let_def)

lemma refresh_params [simp]: "params (refresh s) = params s"
  by (simp add: refresh_expand)

lemma refresh_prompts [simp]: "prompts (refresh s) = prompts s"
  by (simp add: refresh_expand)

lemma refresh_alerts [simp]: "alerts (refresh s) = alerts s"
  by (simp add: refresh_expand)

lemma refresh_requests [simp]: "requests (refresh s) = requests s"
  by (simp add: refresh_expand)

lemma refresh_enabled [simp]: "enabled (refresh s) = True"
  by (simp add: refresh_expand)

lemma refresh_btn_text:
  "btn_text (refresh s) =
     (if params_get (params s) ''GithubSshKeys'' \<noteq> [] then lit_remove else lit_add)"
  by (simp add: refresh_expand)

lemma refresh_username_label:
  "username_label (refresh s) =
     (if params_get (params s) ''GithubSshKeys'' \<noteq> []
      then params_get (params s) ''GithubUsername'' else [])"
  by (simp add: refresh_expand)

lemma refresh_btn_text_neq_ADD: "btn_text (refresh s) \<noteq> ''ADD''"
  by (simp add: refresh_btn_text lit_add_neq_ADD lit_remove_neq_ADD)

lemma refresh_refresh: "refresh (refresh s) = refresh s"
  by (simp add: refresh_expand)

lemma clicked_ADD_branch:
  "btn_text s = ''ADD'' \<Longrightarrow>
   clicked answer s =
     (if answer = [] then s\<lparr>prompts := prompts s @ [lit_prompt]\<rparr>
      else s\<lparr>btn_text := lit_loading, enabled := False,
             prompts := prompts s @ [lit_prompt],
             requests := requests s @
               [\<lparr>url = ''https://github.com/'' @ answer @ ''.keys'', cb_username = answer\<rparr>]\<rparr>)"
  by (simp add: clicked_def getUserKeys_def setEnabled_def setText_def Let_def)

lemma clicked_else_branch:
  "btn_text s \<noteq> ''ADD'' \<Longrightarrow>
   clicked answer s =
     refresh (s\<lparr>params := (params s)(''GithubUsername'' := None, ''GithubSshKeys'' := None)\<rparr>)"
  by (simp add: clicked_def params_remove_def)

lemma refresh_after_remove:
  "refresh (s\<lparr>params := (params s)(''GithubUsername'' := None, ''GithubSshKeys'' := None)\<rparr>) =
   s\<lparr>params := (params s)(''GithubUsername'' := None, ''GithubSshKeys'' := None),
     username_label := [], btn_text := lit_add, enabled := True\<rparr>"
  by (simp add: refresh_expand params_get_def)

subsection \<open>The click handler\<close>

text \<open>
  C1. A click in the unlinked state, whose button text is the literal of line 37, should
  prompt for a username and, for a non-empty answer, show the loading text, disable the
  control and start the fetch. The handler compares the text with \<^verbatim>\<open>"ADD"\<close> (line 13),
  which \<^verbatim>\<open>refresh()\<close> never sets: on the control constructed over the empty store, a
  click answered with \<^verbatim>\<open>octocat\<close> takes the removal branch and leaves the control as it
  was, with no prompt shown, no request sent and the loading text not set.
\<close>

theorem clicked_unlinked_takes_removal_branch:
  "btn_text (SshControl_new Map.empty) = lit_add \<and>
   username_label (SshControl_new Map.empty) = [] \<and>
   clicked ''octocat'' (SshControl_new Map.empty) = SshControl_new Map.empty \<and>
   prompts (clicked ''octocat'' (SshControl_new Map.empty)) = [] \<and>
   requests (clicked ''octocat'' (SshControl_new Map.empty)) = [] \<and>
   enabled (clicked ''octocat'' (SshControl_new Map.empty)) \<and>
   btn_text (clicked ''octocat'' (SshControl_new Map.empty)) \<noteq> lit_loading"
proof -
  have new: "SshControl_new Map.empty =
      \<lparr>params = Map.empty, btn_text = lit_add, username_label = [], enabled = True,
       prompts = [], alerts = [], requests = []\<rparr>"
    by (simp add: SshControl_new_def refresh_expand params_get_def)
  have neq: "lit_add \<noteq> lit_loading"
    by (simp add: lit_add_def lit_loading_def)
  have click: "clicked ''octocat'' (SshControl_new Map.empty) = SshControl_new Map.empty"
    by (simp add: new clicked_else_branch lit_add_neq_ADD refresh_expand params_get_def)
  show ?thesis
    unfolding click using neq by (simp add: new)
qed

text \<open>
  C2. A click in the linked state, whose button text is the literal of line 34, removes
  both \<^verbatim>\<open>GithubUsername\<close> and \<^verbatim>\<open>GithubSshKeys\<close> from the store and then calls
  \<^verbatim>\<open>refresh()\<close>: the control shows the unlinked text, an empty username label and is
  enabled, whatever the dialog would have answered; no prompt, alert or request is made.
\<close>

theorem clicked_remove_state:
  assumes "btn_text s = lit_remove"
  shows "clicked answer s =
           refresh (s\<lparr>params := params_remove (params_remove (params s) ''GithubUsername'')
                                   ''GithubSshKeys''\<rparr>) \<and>
         params (clicked answer s) =
           (params s)(''GithubUsername'' := None, ''GithubSshKeys'' := None) \<and>
         btn_text (clicked answer s) = lit_add \<and>
         username_label (clicked answer s) = [] \<and>
         enabled (clicked answer s) \<and>
         prompts (clicked answer s) = prompts s \<and>
         alerts (clicked answer s) = alerts s \<and>
         requests (clicked answer s) = requests s"
proof -
  from assms have ne: "btn_text s \<noteq> ''ADD''"
    by (simp add: lit_remove_neq_ADD)
  have c: "clicked answer s =
      s\<lparr>params := (params s)(''GithubUsername'' := None, ''GithubSshKeys'' := None),
        username_label := [], btn_text := lit_add, enabled := True\<rparr>"
    using ne by (simp add: clicked_else_branch refresh_after_remove)
  have d: "clicked answer s =
           refresh (s\<lparr>params := params_remove (params_remove (params s) ''GithubUsername'')
                                   ''GithubSshKeys''\<rparr>)"
    using ne by (simp add: clicked_def)
  show ?thesis
    by (intro conjI, rule d) (simp_all add: c)
qed

theorem clicked_remove_state_witness:
  "btn_text (SshControl_new [''GithubUsername'' \<mapsto> ''octocat'', ''GithubSshKeys'' \<mapsto> ''ssh-rsa AAA'']) = lit_remove \<and>
   username_label (SshControl_new [''GithubUsername'' \<mapsto> ''octocat'', ''GithubSshKeys'' \<mapsto> ''ssh-rsa AAA'']) = ''octocat'' \<and>
   params (clicked ''x'' (SshControl_new [''GithubUsername'' \<mapsto> ''octocat'', ''GithubSshKeys'' \<mapsto> ''ssh-rsa AAA''])) = Map.empty \<and>
   btn_text (clicked ''x'' (SshControl_new [''GithubUsername'' \<mapsto> ''octocat'', ''GithubSshKeys'' \<mapsto> ''ssh-rsa AAA''])) = lit_add \<and>
   username_label (clicked ''x'' (SshControl_new [''GithubUsername'' \<mapsto> ''octocat'', ''GithubSshKeys'' \<mapsto> ''ssh-rsa AAA''])) = [] \<and>
   enabled (clicked ''x'' (SshControl_new [''GithubUsername'' \<mapsto> ''octocat'', ''GithubSshKeys'' \<mapsto> ''ssh-rsa AAA'']))"
proof -
  let ?s = "SshControl_new [''GithubUsername'' \<mapsto> ''octocat'', ''GithubSshKeys'' \<mapsto> ''ssh-rsa AAA'']"
  have new: "?s =
      \<lparr>params = [''GithubUsername'' \<mapsto> ''octocat'', ''GithubSshKeys'' \<mapsto> ''ssh-rsa AAA''],
       btn_text = lit_remove, username_label = ''octocat'', enabled = True,
       prompts = [], alerts = [], requests = []\<rparr>"
    by (simp add: SshControl_new_def refresh_expand params_get_def)
  have h: "btn_text ?s = lit_remove"
    by (simp add: new)
  have p: "params ?s = [''GithubUsername'' \<mapsto> ''octocat'', ''GithubSshKeys'' \<mapsto> ''ssh-rsa AAA'']"
    by (simp add: new)
  note t = clicked_remove_state [OF h, of "''x''"]
  from t have "params (clicked ''x'' ?s) =
      (params ?s)(''GithubUsername'' := None, ''GithubSshKeys'' := None)"
    by blast
  then have e: "params (clicked ''x'' ?s) = Map.empty"
    unfolding p by (simp add: fun_eq_iff)
  from t have b: "btn_text (clicked ''x'' ?s) = lit_add"
    by blast
  from t have u: "username_label (clicked ''x'' ?s) = []"
    by blast
  from t have en: "enabled (clicked ''x'' ?s)"
    by blast
  have l: "username_label ?s = ''octocat''"
    by (simp add: new)
  from h l e b u en show ?thesis
    by blast
qed

subsection \<open>The displayed state\<close>

text \<open>
  C3. For every store, \<^verbatim>\<open>refresh()\<close> shows the text of the linked state (line 34)
  together with the stored \<^verbatim>\<open>GithubUsername\<close> exactly when the stored \<^verbatim>\<open>GithubSshKeys\<close>
  is non-empty; otherwise it shows the text of the unlinked state (line 37) and clears the
  username label. In both cases the control is enabled, and the store is only read.
\<close>

theorem refresh_display:
  "(params_get (params s) ''GithubSshKeys'' \<noteq> [] \<longrightarrow>
      btn_text (refresh s) = lit_remove \<and>
      username_label (refresh s) = params_get (params s) ''GithubUsername'') \<and>
   (params_get (params s) ''GithubSshKeys'' = [] \<longrightarrow>
      btn_text (refresh s) = lit_add \<and> username_label (refresh s) = []) \<and>
   (btn_text (refresh s) = lit_remove) = (params_get (params s) ''GithubSshKeys'' \<noteq> []) \<and>
   enabled (refresh s) \<and>
   params (refresh s) = params s"
proof -
  have "lit_add \<noteq> lit_remove"
    by (simp add: lit_add_def lit_remove_def)
  then show ?thesis
    by (simp add: refresh_btn_text refresh_username_label)
qed

theorem refresh_display_witness:
  "params_get [''GithubUsername'' \<mapsto> ''octocat'', ''GithubSshKeys'' \<mapsto> ''ssh-rsa AAA'']
      ''GithubSshKeys'' \<noteq> [] \<and>
   btn_text (refresh \<lparr>params = [''GithubUsername'' \<mapsto> ''octocat'', ''GithubSshKeys'' \<mapsto> ''ssh-rsa AAA''],
      btn_text = lit_loading, username_label = [], enabled = False,
      prompts = [], alerts = [], requests = []\<rparr>) = lit_remove \<and>
   username_label (refresh \<lparr>params = [''GithubUsername'' \<mapsto> ''octocat'', ''GithubSshKeys'' \<mapsto> ''ssh-rsa AAA''],
      btn_text = lit_loading, username_label = [], enabled = False,
      prompts = [], alerts = [], requests = []\<rparr>) = ''octocat'' \<and>
   params_get [''GithubUsername'' \<mapsto> ''octocat''] ''GithubSshKeys'' = [] \<and>
   btn_text (refresh \<lparr>params = [''GithubUsername'' \<mapsto> ''octocat''],
      btn_text = lit_loading, username_label = ''octocat'', enabled = False,
      prompts = [], alerts = [], requests = []\<rparr>) = lit_add \<and>
   username_label (refresh \<lparr>params = [''GithubUsername'' \<mapsto> ''octocat''],
      btn_text = lit_loading, username_label = ''octocat'', enabled = False,
      prompts = [], alerts = [], requests = []\<rparr>) = []"
proof -
  let ?a = "\<lparr>params = [''GithubUsername'' \<mapsto> ''octocat'', ''GithubSshKeys'' \<mapsto> ''ssh-rsa AAA''],
      btn_text = lit_loading, username_label = [], enabled = False,
      prompts = [], alerts = [], requests = []\<rparr>"
  let ?b = "\<lparr>params = [''GithubUsername'' \<mapsto> ''octocat''],
      btn_text = lit_loading, username_label = ''octocat'', enabled = False,
      prompts = [], alerts = [], requests = []\<rparr>"
  have ka: "params_get (params ?a) ''GithubSshKeys'' \<noteq> []"
    by (simp add: params_get_def)
  have ua: "params_get (params ?a) ''GithubUsername'' = ''octocat''"
    by (simp add: params_get_def)
  have kb: "params_get (params ?b) ''GithubSshKeys'' = []"
    by (simp add: params_get_def)
  from ka ua refresh_display [of ?a]
  have a: "btn_text (refresh ?a) = lit_remove \<and> username_label (refresh ?a) = ''octocat''"
    by metis
  from kb refresh_display [of ?b]
  have b: "btn_text (refresh ?b) = lit_add \<and> username_label (refresh ?b) = []"
    by blast
  from ka kb a b show ?thesis
    by simp
qed

text \<open>
  C8. \<^verbatim>\<open>refresh()\<close> is idempotent: called twice in a row, it leaves the control, and so
  the button text, the username label and the enabled flag, as one call does.
\<close>

theorem refresh_idempotent:
  "refresh (refresh s) = refresh s \<and>
   btn_text (refresh (refresh s)) = btn_text (refresh s) \<and>
   username_label (refresh (refresh s)) = username_label (refresh s) \<and>
   enabled (refresh (refresh s)) = enabled (refresh s)"
  by (simp add: refresh_expand)

text \<open>
  C10. The button text and the enabled flag that \<^verbatim>\<open>refresh()\<close> sets depend on the store
  through \<^verbatim>\<open>GithubSshKeys\<close> only: two controls whose stores agree on that value get the
  same button text and enabled flag, whatever \<^verbatim>\<open>GithubUsername\<close> holds. So a stored
  username without stored keys is shown as unlinked, with an empty username label.
\<close>

theorem refresh_depends_on_keys_only:
  assumes "params_get (params s1) ''GithubSshKeys'' = params_get (params s2) ''GithubSshKeys''"
  shows "btn_text (refresh s1) = btn_text (refresh s2) \<and>
         enabled (refresh s1) = enabled (refresh s2) \<and>
         (params_get (params s1) ''GithubSshKeys'' = [] \<longrightarrow>
            btn_text (refresh s1) = lit_add \<and> username_label (refresh s1) = [])"
  using assms by (simp add: refresh_btn_text refresh_username_label)

theorem refresh_depends_on_keys_only_witness:
  "params_get [''GithubUsername'' \<mapsto> ''octocat''] ''GithubSshKeys'' = params_get Map.empty ''GithubSshKeys'' \<and>
   params_get [''GithubUsername'' \<mapsto> ''octocat''] ''GithubUsername'' \<noteq> params_get Map.empty ''GithubUsername'' \<and>
   btn_text (refresh \<lparr>params = [''GithubUsername'' \<mapsto> ''octocat''], btn_text = [],
      username_label = [], enabled = False, prompts = [], alerts = [], requests = []\<rparr>) =
   btn_text (refresh \<lparr>params = Map.empty, btn_text = [],
      username_label = [], enabled = False, prompts = [], alerts = [], requests = []\<rparr>) \<and>
   btn_text (refresh \<lparr>params = [''GithubUsername'' \<mapsto> ''octocat''], btn_text = [],
      username_label = [], enabled = False, prompts = [], alerts = [], requests = []\<rparr>) = lit_add"
proof -
  let ?a = "\<lparr>params = [''GithubUsername'' \<mapsto> ''octocat''], btn_text = [],
      username_label = [], enabled = False, prompts = [], alerts = [], requests = []\<rparr>"
  let ?b = "\<lparr>params = Map.empty, btn_text = [],
      username_label = [], enabled = False, prompts = [], alerts = [], requests = []\<rparr>"
  have h: "params_get (params ?a) ''GithubSshKeys'' = params_get (params ?b) ''GithubSshKeys''"
    by (simp add: params_get_def)
  have e: "params_get (params ?a) ''GithubSshKeys'' = []"
    by (simp add: params_get_def)
  have d: "params_get [''GithubUsername'' \<mapsto> ''octocat''] ''GithubUsername'' \<noteq>
           params_get Map.empty ''GithubUsername''"
    by (simp add: params_get_def)
  from e refresh_depends_on_keys_only [OF h]
  have r: "btn_text (refresh ?a) = btn_text (refresh ?b) \<and> btn_text (refresh ?a) = lit_add"
    by blast
  have h0: "params_get [''GithubUsername'' \<mapsto> ''octocat''] ''GithubSshKeys'' =
            params_get Map.empty ''GithubSshKeys''"
    by (simp add: params_get_def)
  from h0 d r show ?thesis
    by blast
qed

subsection \<open>Fetching the keys\<close>

lemma requestDone_expand:
  "requestDone username timeout resp success s =
     refresh
       (if success \<and> resp \<noteq> [] then
          s\<lparr>params := (params s)(''GithubUsername'' \<mapsto> username, ''GithubSshKeys'' \<mapsto> resp)\<rparr>
        else
          s\<lparr>alerts := alerts s @
            [if success then
               ''Username '' @ [CHR 0x27] @ username @ [CHR 0x27] @ '' has no keys on GitHub''
             else if timeout then ''Request timed out''
             else ''Username '' @ [CHR 0x27] @ username @ [CHR 0x27] @
                  '' doesn't exist on GitHub'']\<rparr>)"
  by (simp add: requestDone_def params_put_def alert_def Let_def)

lemma requestDone_requests [simp]:
  "requests (requestDone username timeout resp success s) = requests s"
  by (simp add: requestDone_expand)

lemma requestDone_prompts [simp]:
  "prompts (requestDone username timeout resp success s) = prompts s"
  by (simp add: requestDone_expand)

text \<open>
  C4. \<^verbatim>\<open>getUserKeys(username)\<close> sends exactly one request, to
  \<^verbatim>\<open>https://github.com/<username>.keys\<close>, and does not touch the store; when that request
  completes with success and a non-empty body, the handler stores the username under
  \<^verbatim>\<open>GithubUsername\<close> and the body under \<^verbatim>\<open>GithubSshKeys\<close>, shows no alert, and the
  request is deleted.
\<close>

theorem getUserKeys_fetch:
  "requests (getUserKeys username s) =
     requests s @ [\<lparr>url = ''https://github.com/'' @ username @ ''.keys'',
                    cb_username = username\<rparr>] \<and>
   length (requests (getUserKeys username s)) = Suc (length (requests s)) \<and>
   params (getUserKeys username s) = params s \<and>
   (resp \<noteq> [] \<longrightarrow>
      params (requestDone username timeout resp True s) =
        (params s)(''GithubUsername'' \<mapsto> username, ''GithubSshKeys'' \<mapsto> resp) \<and>
      alerts (requestDone username timeout resp True s) = alerts s \<and>
      params (fire (RequestDone (length (requests s)) timeout resp True)
                (getUserKeys username s)) =
        (params s)(''GithubUsername'' \<mapsto> username, ''GithubSshKeys'' \<mapsto> resp) \<and>
      requests (fire (RequestDone (length (requests s)) timeout resp True)
                  (getUserKeys username s)) = requests s)"
  by (simp add: getUserKeys_def fire_def requestDone_expand)

theorem getUserKeys_fetch_witness:
  "requests (getUserKeys ''octocat'' (SshControl_new Map.empty)) =
     [\<lparr>url = ''https://github.com/octocat.keys'', cb_username = ''octocat''\<rparr>] \<and>
   ''ssh-rsa AAA'' \<noteq> [] \<and>
   params (fire (RequestDone 0 False ''ssh-rsa AAA'' True)
             (getUserKeys ''octocat'' (SshControl_new Map.empty))) =
     [''GithubUsername'' \<mapsto> ''octocat'', ''GithubSshKeys'' \<mapsto> ''ssh-rsa AAA'']"
proof -
  let ?s = "SshControl_new Map.empty"
  have r: "requests ?s = []"
    by (simp add: SshControl_new_def)
  have p: "params ?s = Map.empty"
    by (simp add: SshControl_new_def)
  have n: "''ssh-rsa AAA'' \<noteq> []"
    by simp
  note t = getUserKeys_fetch [of "''octocat''" ?s "''ssh-rsa AAA''" False]
  from t have a: "requests (getUserKeys ''octocat'' ?s) =
      requests ?s @ [\<lparr>url = ''https://github.com/'' @ ''octocat'' @ ''.keys'',
                     cb_username = ''octocat''\<rparr>]"
    by blast
  from t n have b: "params (fire (RequestDone (length (requests ?s)) False ''ssh-rsa AAA'' True)
                (getUserKeys ''octocat'' ?s)) =
        (params ?s)(''GithubUsername'' \<mapsto> ''octocat'', ''GithubSshKeys'' \<mapsto> ''ssh-rsa AAA'')"
    by blast
  from a have a': "requests (getUserKeys ''octocat'' ?s) =
     [\<lparr>url = ''https://github.com/octocat.keys'', cb_username = ''octocat''\<rparr>]"
    unfolding r by simp
  from b have b': "params (fire (RequestDone 0 False ''ssh-rsa AAA'' True)
             (getUserKeys ''octocat'' ?s)) =
     [''GithubUsername'' \<mapsto> ''octocat'', ''GithubSshKeys'' \<mapsto> ''ssh-rsa AAA'']"
    unfolding r p by simp
  from a' n b' show ?thesis
    by blast
qed

text \<open>
  C5. A completion that is not a success with a non-empty body leaves the store as it is
  and shows exactly one alert: that the username has no keys on GitHub for a success with
  an empty body, that the request timed out for a failure of a request whose timeout flag
  is set, and that the username does not exist on GitHub for any other failure.
\<close>

theorem requestDone_failure_alert:
  assumes "\<not> (success \<and> resp \<noteq> [])"
  shows "params (requestDone username timeout resp success s) = params s \<and>
         alerts (requestDone username timeout resp success s) =
           alerts s @
             [if success then
                ''Username '' @ [CHR 0x27] @ username @ [CHR 0x27] @ '' has no keys on GitHub''
              else if timeout then ''Request timed out''
              else ''Username '' @ [CHR 0x27] @ username @ [CHR 0x27] @
                   '' doesn't exist on GitHub'']"
  using assms by (simp add: requestDone_expand)

theorem requestDone_failure_alert_witness:
  "\<not> (True \<and> ([]::string) \<noteq> []) \<and>
   alerts (requestDone ''octocat'' False [] True (SshControl_new Map.empty)) =
     [''Username 'octocat' has no keys on GitHub''] \<and>
   params (requestDone ''octocat'' False [] True (SshControl_new Map.empty)) = Map.empty \<and>
   \<not> (False \<and> ''Operation canceled'' \<noteq> []) \<and>
   alerts (requestDone ''octocat'' True ''Operation canceled'' False (SshControl_new Map.empty)) =
     [''Request timed out''] \<and>
   params (requestDone ''octocat'' True ''Operation canceled'' False (SshControl_new Map.empty)) =
     Map.empty \<and>
   alerts (requestDone ''octocat'' False ''Not Found'' False (SshControl_new Map.empty)) =
     [''Username 'octocat' doesn't exist on GitHub''] \<and>
   params (requestDone ''octocat'' False ''Not Found'' False (SshControl_new Map.empty)) =
     Map.empty"
proof -
  let ?s = "SshControl_new Map.empty"
  have al: "alerts ?s = []"
    by (simp add: SshControl_new_def)
  have p: "params ?s = Map.empty"
    by (simp add: SshControl_new_def)
  have h1: "\<not> (True \<and> ([]::string) \<noteq> [])"
    by simp
  have h2: "\<not> (False \<and> ''Operation canceled'' \<noteq> [])"
    by simp
  have h3: "\<not> (False \<and> ''Not Found'' \<noteq> [])"
    by simp
  have c1: "alerts (requestDone ''octocat'' False [] True ?s) =
        [''Username 'octocat' has no keys on GitHub''] \<and>
      params (requestDone ''octocat'' False [] True ?s) = Map.empty"
    using requestDone_failure_alert [OF h1, of "''octocat''" False ?s]
    unfolding al p by simp
  have c2: "alerts (requestDone ''octocat'' True ''Operation canceled'' False ?s) =
        [''Request timed out''] \<and>
      params (requestDone ''octocat'' True ''Operation canceled'' False ?s) = Map.empty"
    using requestDone_failure_alert [OF h2, of "''octocat''" True ?s]
    unfolding al p by simp
  have c3: "alerts (requestDone ''octocat'' False ''Not Found'' False ?s) =
        [''Username 'octocat' doesn't exist on GitHub''] \<and>
      params (requestDone ''octocat'' False ''Not Found'' False ?s) = Map.empty"
    using requestDone_failure_alert [OF h3, of "''octocat''" False ?s]
    unfolding al p by simp
  from h1 h2 c1 c2 c3 show ?thesis
    by blast
qed

text \<open>
  C6. Whatever the outcome, the handler of the completion ends with \<^verbatim>\<open>refresh()\<close>: its
  result is \<^verbatim>\<open>refresh()\<close> of the control with the store and the alerts the handler has
  produced, so the control is enabled again and its button text is the one of the linked
  or of the unlinked state, never the loading text.
\<close>

theorem requestDone_ends_with_refresh:
  "requestDone username timeout resp success s =
     refresh (s\<lparr>params := params (requestDone username timeout resp success s),
               alerts := alerts (requestDone username timeout resp success s)\<rparr>) \<and>
   refresh (requestDone username timeout resp success s) =
     requestDone username timeout resp success s \<and>
   enabled (requestDone username timeout resp success s) \<and>
   btn_text (requestDone username timeout resp success s) =
     (if params_get (params (requestDone username timeout resp success s)) ''GithubSshKeys'' \<noteq> []
      then lit_remove else lit_add) \<and>
   btn_text (requestDone username timeout resp success s) \<noteq> lit_loading"
proof -
  have n1: "lit_add \<noteq> lit_loading"
    by (simp add: lit_add_def lit_loading_def)
  have n2: "lit_remove \<noteq> lit_loading"
    by (simp add: lit_remove_def lit_loading_def)
  have a: "requestDone username timeout resp success s =
     refresh (s\<lparr>params := params (requestDone username timeout resp success s),
               alerts := alerts (requestDone username timeout resp success s)\<rparr>)"
    by (simp add: requestDone_expand refresh_expand)
  have b: "refresh (requestDone username timeout resp success s) =
     requestDone username timeout resp success s"
    by (simp add: requestDone_expand refresh_refresh)
  have c: "btn_text (requestDone username timeout resp success s) =
     (if params_get (params (requestDone username timeout resp success s)) ''GithubSshKeys'' \<noteq> []
      then lit_remove else lit_add)"
    by (simp add: requestDone_expand refresh_btn_text)
  have d: "enabled (requestDone username timeout resp success s)"
    by (simp add: requestDone_expand)
  from c n1 n2 have e: "btn_text (requestDone username timeout resp success s) \<noteq> lit_loading"
    by (simp split: if_splits)
  from a b c d e show ?thesis
    by blast
qed

subsection \<open>Sequences of events\<close>

lemma run_Nil [simp]: "run [] s = s"
  by (simp add: run_def)

lemma run_Cons [simp]: "run (e # evs) s = run evs (fire e s)"
  by (simp add: run_def)

lemma paired_refresh: "paired (params (refresh s)) = paired (params s)"
  by simp

lemma paired_getUserKeys: "paired (params (getUserKeys username s)) = paired (params s)"
  by (simp add: getUserKeys_def)

lemma paired_requestDone:
  "paired (params s) \<Longrightarrow> paired (params (requestDone username timeout resp success s))"
  by (simp add: requestDone_expand paired_def)

lemma paired_clicked: "paired (params s) \<Longrightarrow> paired (params (clicked answer s))"
  by (simp add: clicked_def getUserKeys_def setEnabled_def setText_def params_remove_def
      paired_def Let_def)

lemma paired_fire: "paired (params s) \<Longrightarrow> paired (params (fire e s))"
  by (cases e) (simp_all add: fire_def paired_clicked paired_requestDone)

lemma paired_run: "paired (params s) \<Longrightarrow> paired (params (run evs s))"
  by (induction evs arbitrary: s) (simp_all add: paired_fire)

text \<open>
  C7. Every operation of the control keeps the two persisted fields paired: from a store
  where \<^verbatim>\<open>GithubUsername\<close> and \<^verbatim>\<open>GithubSshKeys\<close> are both present or both absent,
  \<^verbatim>\<open>refresh()\<close>, a click, \<^verbatim>\<open>getUserKeys\<close>, a completion of a request, and any sequence
  of clicks and completions lead to a store where they are both present or both absent.
\<close>

theorem paired_preserved:
  assumes "paired (params s)"
  shows "paired (params (refresh s)) \<and>
         paired (params (clicked answer s)) \<and>
         paired (params (getUserKeys username s)) \<and>
         paired (params (requestDone username timeout resp success s)) \<and>
         paired (params (fire e s)) \<and>
         paired (params (run evs s))"
  using assms
  by (simp add: paired_clicked paired_getUserKeys paired_requestDone paired_fire paired_run)

theorem paired_preserved_witness:
  "paired (params \<lparr>params = Map.empty, btn_text = ''ADD'', username_label = [], enabled = True,
      prompts = [], alerts = [], requests = []\<rparr>) \<and>
   params (run [Click ''octocat'', RequestDone 0 False ''ssh-rsa AAA'' True]
      \<lparr>params = Map.empty, btn_text = ''ADD'', username_label = [], enabled = True,
       prompts = [], alerts = [], requests = []\<rparr>) =
     [''GithubUsername'' \<mapsto> ''octocat'', ''GithubSshKeys'' \<mapsto> ''ssh-rsa AAA''] \<and>
   paired (params (run [Click ''octocat'', RequestDone 0 False ''ssh-rsa AAA'' True]
      \<lparr>params = Map.empty, btn_text = ''ADD'', username_label = [], enabled = True,
       prompts = [], alerts = [], requests = []\<rparr>)) \<and>
   paired (params (run [Click ''octocat'', RequestDone 0 False ''ssh-rsa AAA'' True, Click []]
      \<lparr>params = Map.empty, btn_text = ''ADD'', username_label = [], enabled = True,
       prompts = [], alerts = [], requests = []\<rparr>))"
proof -
  let ?s = "\<lparr>params = Map.empty, btn_text = ''ADD'', username_label = [], enabled = True,
      prompts = [], alerts = [], requests = []\<rparr>"
  have h: "paired (params ?s)"
    by (simp add: paired_def)
  have r: "params (run [Click ''octocat'', RequestDone 0 False ''ssh-rsa AAA'' True] ?s) =
     [''GithubUsername'' \<mapsto> ''octocat'', ''GithubSshKeys'' \<mapsto> ''ssh-rsa AAA'']"
    by (simp add: fire_def clicked_ADD_branch requestDone_expand)
  from paired_preserved [OF h, of _ _ _ _ _ _ "[Click ''octocat'', RequestDone 0 False ''ssh-rsa AAA'' True]"]
  have a: "paired (params (run [Click ''octocat'', RequestDone 0 False ''ssh-rsa AAA'' True] ?s))"
    by blast
  from paired_preserved [OF h, of _ _ _ _ _ _ "[Click ''octocat'', RequestDone 0 False ''ssh-rsa AAA'' True, Click []]"]
  have b: "paired (params (run [Click ''octocat'', RequestDone 0 False ''ssh-rsa AAA'' True, Click []] ?s))"
    by blast
  from h r a b show ?thesis
    by blast
qed

lemma settled_new: "settled (SshControl_new p)"
  by (simp add: settled_def SshControl_new_def refresh_btn_text)

lemma settled_fire: "settled s \<Longrightarrow> settled (fire e s)"
proof (cases e)
  case (Click answer)
  assume "settled s"
  then have "btn_text s \<noteq> ''ADD''"
    using lit_add_neq_ADD lit_remove_neq_ADD by (auto simp: settled_def)
  with \<open>settled s\<close> show ?thesis
    by (simp add: Click fire_def clicked_else_branch settled_def refresh_btn_text)
next
  case (RequestDone i timeout resp success)
  assume "settled s"
  then show ?thesis
    by (simp add: RequestDone fire_def settled_def)
qed

lemma settled_run: "settled s \<Longrightarrow> settled (run evs s)"
  by (induction evs arbitrary: s) (simp_all add: settled_fire)

text \<open>
  C9. The handler of a click enters the branch that prompts and fetches only when the
  button text is \<^verbatim>\<open>"ADD"\<close>, and \<^verbatim>\<open>refresh()\<close> never sets that text. So a click after
  \<^verbatim>\<open>refresh()\<close>, linked or not, removes both fields and refreshes: no prompt is shown, no
  request is sent and the loading text is not set. From the constructed control, no
  sequence of clicks and completions ever shows a prompt, sends a request, sets the
  loading text or disables the control.
\<close>

theorem click_after_refresh_removes:
  "(btn_text s' \<noteq> ''ADD'' \<longrightarrow>
      clicked answer s' =
        refresh (s'\<lparr>params := params_remove (params_remove (params s') ''GithubUsername'')
                                 ''GithubSshKeys''\<rparr>)) \<and>
   btn_text (refresh s) \<noteq> ''ADD'' \<and>
   clicked answer (refresh s) =
     refresh (s\<lparr>params := params_remove (params_remove (params s) ''GithubUsername'')
                             ''GithubSshKeys''\<rparr>) \<and>
   params (clicked answer (refresh s)) =
     (params s)(''GithubUsername'' := None, ''GithubSshKeys'' := None) \<and>
   btn_text (clicked answer (refresh s)) = lit_add \<and>
   btn_text (clicked answer (refresh s)) \<noteq> lit_loading \<and>
   enabled (clicked answer (refresh s)) \<and>
   prompts (clicked answer (refresh s)) = prompts s \<and>
   requests (clicked answer (refresh s)) = requests s \<and>
   btn_text (run evs (SshControl_new p)) \<noteq> ''ADD'' \<and>
   btn_text (run evs (SshControl_new p)) \<noteq> lit_loading \<and>
   enabled (run evs (SshControl_new p)) \<and>
   prompts (run evs (SshControl_new p)) = [] \<and>
   requests (run evs (SshControl_new p)) = []"
proof -
  have n: "lit_add \<noteq> lit_loading" "lit_remove \<noteq> lit_loading"
    by (simp_all add: lit_add_def lit_remove_def lit_loading_def)
  have z: "btn_text s' \<noteq> ''ADD'' \<longrightarrow>
      clicked answer s' =
        refresh (s'\<lparr>params := params_remove (params_remove (params s') ''GithubUsername'')
                                 ''GithubSshKeys''\<rparr>)"
    by (simp add: clicked_def)
  have a: "btn_text (refresh s) \<noteq> ''ADD''"
    by (rule refresh_btn_text_neq_ADD)
  have b: "clicked answer (refresh s) =
     refresh (s\<lparr>params := params_remove (params_remove (params s) ''GithubUsername'')
                             ''GithubSshKeys''\<rparr>)"
    using a by (simp add: clicked_def refresh_expand params_remove_def params_get_def)
  have c: "clicked answer (refresh s) =
     s\<lparr>params := (params s)(''GithubUsername'' := None, ''GithubSshKeys'' := None),
       username_label := [], btn_text := lit_add, enabled := True\<rparr>"
    unfolding b by (simp add: params_remove_def refresh_after_remove)
  have "settled (run evs (SshControl_new p))"
    by (simp add: settled_run settled_new)
  then have d: "btn_text (run evs (SshControl_new p)) \<noteq> ''ADD'' \<and>
      btn_text (run evs (SshControl_new p)) \<noteq> lit_loading \<and>
      enabled (run evs (SshControl_new p)) \<and>
      prompts (run evs (SshControl_new p)) = [] \<and>
      requests (run evs (SshControl_new p)) = []"
    using n lit_add_neq_ADD lit_remove_neq_ADD by (auto simp: settled_def)
  have e: "params (clicked answer (refresh s)) =
       (params s)(''GithubUsername'' := None, ''GithubSshKeys'' := None) \<and>
     btn_text (clicked answer (refresh s)) = lit_add \<and>
     btn_text (clicked answer (refresh s)) \<noteq> lit_loading \<and>
     enabled (clicked answer (refresh s)) \<and>
     prompts (clicked answer (refresh s)) = prompts s \<and>
     requests (clicked answer (refresh s)) = requests s"
    using n by (simp add: c)
  from z a b d e show ?thesis
    by blast
qed

theorem click_after_refresh_removes_witness:
  "btn_text (SshControl_new [''GithubSshKeys'' \<mapsto> ''ssh-rsa AAA'']) \<noteq> ''ADD'' \<and>
   clicked ''octocat'' (SshControl_new [''GithubSshKeys'' \<mapsto> ''ssh-rsa AAA'']) =
     SshControl_new Map.empty \<and>
   btn_text (SshControl_new Map.empty) \<noteq> ''ADD'' \<and>
   clicked ''octocat'' (SshControl_new Map.empty) = SshControl_new Map.empty \<and>
   prompts (run [Click ''octocat'', RequestDone 0 False ''ssh-rsa AAA'' True, Click ''octocat'']
              (SshControl_new Map.empty)) = [] \<and>
   requests (run [Click ''octocat'', RequestDone 0 False ''ssh-rsa AAA'' True, Click ''octocat'']
              (SshControl_new Map.empty)) = []"
proof -
  let ?l = "SshControl_new [''GithubSshKeys'' \<mapsto> ''ssh-rsa AAA'']"
  let ?u = "SshControl_new Map.empty"
  let ?evs = "[Click ''octocat'', RequestDone 0 False ''ssh-rsa AAA'' True, Click ''octocat'']"
  have hl: "btn_text ?l \<noteq> ''ADD''"
    by (simp add: SshControl_new_def refresh_btn_text_neq_ADD)
  have hu: "btn_text ?u \<noteq> ''ADD''"
    by (simp add: SshControl_new_def refresh_btn_text_neq_ADD)
  have r: "refresh (?l\<lparr>params := params_remove (params_remove (params ?l) ''GithubUsername'')
                                 ''GithubSshKeys''\<rparr>) = ?u"
    by (simp add: SshControl_new_def refresh_expand params_get_def params_remove_def)
  have r': "refresh (?u\<lparr>params := params_remove (params_remove (params ?u) ''GithubUsername'')
                                 ''GithubSshKeys''\<rparr>) = ?u"
    by (simp add: SshControl_new_def refresh_expand params_get_def params_remove_def)
  from hl click_after_refresh_removes [of ?l "''octocat''"]
  have "clicked ''octocat'' ?l =
      refresh (?l\<lparr>params := params_remove (params_remove (params ?l) ''GithubUsername'')
                                 ''GithubSshKeys''\<rparr>)"
    by blast
  then have cl: "clicked ''octocat'' ?l = ?u"
    by (simp only: r)
  from hu click_after_refresh_removes [of ?u "''octocat''"]
  have "clicked ''octocat'' ?u =
      refresh (?u\<lparr>params := params_remove (params_remove (params ?u) ''GithubUsername'')
                                 ''GithubSshKeys''\<rparr>)"
    by blast
  then have cu: "clicked ''octocat'' ?u = ?u"
    by (simp only: r')
  from click_after_refresh_removes [of _ _ _ ?evs Map.empty]
  have e: "prompts (run ?evs ?u) = [] \<and> requests (run ?evs ?u) = []"
    by blast
  from hl hu cl cu e show ?thesis
    by blast
qed

end
